theory Spec2Isabelle
  imports Main
begin

section \<open>Data\<close>

text \<open>
  The program is \<^verbatim>\<open>src/main.py\<close>: an application object with a secret key, and two
  view functions registered on it, both of which return what the framework's
  \<^verbatim>\<open>send_from_directory\<close> returns. Contents of files and response bodies are byte
  strings. A path is the text the views receive: the path of the request's URL after the
  query is split off and the percent escapes are decoded, written as its UTF-8 bytes.
\<close>

type_synonym bytes = string

record response =
  status :: nat
  body :: bytes

text \<open>\<^verbatim>\<open>os.environ\<close> is a dictionary from names to values.\<close>

type_synonym environ = "string \<rightharpoonup> string"

definition environ_get :: "environ \<Rightarrow> string \<Rightarrow> string \<Rightarrow> string" where
  "environ_get env k dflt = (case env k of None \<Rightarrow> dflt | Some v \<Rightarrow> v)"

text \<open>
  The routing rules of the application and the view each one names: the two the source
  registers, \<^verbatim>\<open>'/'\<close> and \<^verbatim>\<open>'/<path:path>'\<close>, and the rule
  \<^verbatim>\<open>'/static/<path:filename>'\<close> that \<^verbatim>\<open>Flask(__name__)\<close> registers by itself for the
  framework's own static view.
\<close>

datatype rule = Rule_static | Rule_root | Rule_path

datatype endpoint = Static | Index | Serve_file

text \<open>
  The process state: the application object. \<^verbatim>\<open>root_path\<close> is the directory the
  application was created for (\<^verbatim>\<open>Flask(__name__)\<close>), \<^verbatim>\<open>secret_key\<close> the value assigned at
  line 5, \<^verbatim>\<open>url_map\<close> the rules in the order they are added.
\<close>

record app =
  root_path :: string
  secret_key :: string
  url_map :: "(rule \<times> endpoint) list"

text \<open>
  \<^verbatim>\<open>send_from_directory\<close> is the framework's function, not the repository's: the views
  take it as a parameter. It is given the application's root path, the directory and
  the path the view passes, and the world \<open>'w\<close> outside the process (the filesystem); it
  returns a response and the world after the call.
\<close>

type_synonym 'w helper = "string \<Rightarrow> string \<Rightarrow> string \<Rightarrow> 'w \<Rightarrow> response \<times> 'w"

section \<open>The program\<close>

text \<open>
  Lines 4 and 5, and the two decorators:
  \<^verbatim>\<open>app = Flask(__name__)\<close>
  \<^verbatim>\<open>app.secret_key = os.environ.get("SESSION_SECRET", "income-tax-calculator-secret-key")\<close>
  The application starts with the static rule; the decorators add theirs after it.
\<close>

definition add_url_rule :: "rule \<Rightarrow> endpoint \<Rightarrow> app \<Rightarrow> app" where
  "add_url_rule r e a = a\<lparr>url_map := url_map a @ [(r, e)]\<rparr>"

definition create_app :: "string \<Rightarrow> environ \<Rightarrow> app" where
  "create_app root env =
     add_url_rule Rule_path Serve_file
       (add_url_rule Rule_root Index
          \<lparr>root_path = root,
           secret_key = environ_get env ''SESSION_SECRET'' ''income-tax-calculator-secret-key'',
           url_map = [(Rule_static, Static)]\<rparr>)"

text \<open>
  \<^verbatim>\<open>def index(): return send_from_directory('.', 'index.html')\<close>
  \<^verbatim>\<open>def serve_file(path): return send_from_directory('.', path)\<close>
  Neither view assigns to the application object: it is returned as it came.
\<close>

definition index :: "'w helper \<Rightarrow> app \<times> 'w \<Rightarrow> response \<times> app \<times> 'w" where
  "index sfd s =
     (case s of (a, w) \<Rightarrow>
        (case sfd (root_path a) ''.'' ''index.html'' w of (r, w') \<Rightarrow> (r, a, w')))"

definition serve_file :: "'w helper \<Rightarrow> string \<Rightarrow> app \<times> 'w \<Rightarrow> response \<times> app \<times> 'w" where
  "serve_file sfd path s =
     (case s of (a, w) \<Rightarrow>
        (case sfd (root_path a) ''.'' path w of (r, w') \<Rightarrow> (r, a, w')))"

text \<open>
  The framework's static view serves from the folder \<^verbatim>\<open>static\<close> under the application's
  root, \<^verbatim>\<open>os.path.join(root_path, 'static')\<close>, through the same helper.
\<close>

definition os_path_join :: "string \<Rightarrow> string \<Rightarrow> string" where
  "os_path_join a b =
     (if b \<noteq> [] \<and> hd b = CHR ''/'' then b
      else if a = [] \<or> last a = CHR ''/'' then a @ b
      else a @ CHR ''/'' # b)"

definition send_static_file :: "'w helper \<Rightarrow> string \<Rightarrow> app \<times> 'w \<Rightarrow> response \<times> app \<times> 'w" where
  "send_static_file sfd filename s =
     (case s of (a, w) \<Rightarrow>
        (case sfd (root_path a) (os_path_join (root_path a) ''static'') filename w of
           (r, w') \<Rightarrow> (r, a, w')))"

text \<open>
  Matching the path of a request's URL against a rule gives the view's arguments.
  What a \<^verbatim>\<open><path:...>\<close> variable accepts: a non-empty text that does not begin with a
  slash and holds no newline. \<^verbatim>\<open>'/'\<close> matches the URL \<^verbatim>\<open>/\<close> only;
  \<^verbatim>\<open>'/static/<path:filename>'\<close> matches \<^verbatim>\<open>/static/\<close> followed by such a text, and
  \<^verbatim>\<open>'/<path:path>'\<close> a slash followed by such a text. A URL that begins with two slashes
  matches no rule as it stands.
\<close>

definition path_converter :: "string \<Rightarrow> bool" where
  "path_converter p \<longleftrightarrow> p \<noteq> [] \<and> hd p \<noteq> CHR ''/'' \<and> CHR 0x0A \<notin> set p"

fun match_rule :: "rule \<Rightarrow> string \<Rightarrow> string list option" where
  "match_rule Rule_static url =
     (if take 8 url = ''/static/'' \<and> path_converter (drop 8 url) then Some [drop 8 url] else None)"
| "match_rule Rule_root url = (if url = ''/'' then Some [] else None)"
| "match_rule Rule_path url =
     (case url of
        [] \<Rightarrow> None
      | c # p \<Rightarrow> (if c = CHR ''/'' \<and> path_converter p then Some [p] else None))"

fun match_url :: "(rule \<times> endpoint) list \<Rightarrow> string \<Rightarrow> (endpoint \<times> string list) option" where
  "match_url [] url = None"
| "match_url ((r, e) # rules) url =
     (case match_rule r url of
        Some args \<Rightarrow> Some (e, args)
      | None \<Rightarrow> match_url rules url)"

text \<open>
  Handling one GET request for a URL path, as the server of line 17 does,
  \<^verbatim>\<open>app.run(host='0.0.0.0', port=5000, debug=True)\<close>: with \<^verbatim>\<open>debug=True\<close> the framework's
  debugger stands before the application and answers the URL \<^verbatim>\<open>/console\<close> itself; for
  every other URL the view of the first matching rule runs. \<open>None\<close> as the response says
  that no view was called (the framework answers by itself, with its console, an error
  page or a redirect); the state is then as before. The static rule and the wildcard rule
  bind exactly one variable each, so their views are never called with another number of
  arguments.
\<close>

definition dispatch_request :: "'w helper \<Rightarrow> app \<times> 'w \<Rightarrow> string \<Rightarrow> response option \<times> app \<times> 'w" where
  "dispatch_request sfd s url =
     (if url = ''/console'' then (None, s)
      else
        (case match_url (url_map (fst s)) url of
           None \<Rightarrow> (None, s)
         | Some (Static, args) \<Rightarrow>
             (case args of
                [filename] \<Rightarrow> (case send_static_file sfd filename s of (r, s') \<Rightarrow> (Some r, s'))
              | _ \<Rightarrow> (None, s))
         | Some (Index, args) \<Rightarrow> (case index sfd s of (r, s') \<Rightarrow> (Some r, s'))
         | Some (Serve_file, args) \<Rightarrow>
             (case args of
                [path] \<Rightarrow> (case serve_file sfd path s of (r, s') \<Rightarrow> (Some r, s'))
              | _ \<Rightarrow> (None, s))))"

text \<open>
  \<^verbatim>\<open>app.run(...)\<close> answers requests one after the other, each on the state the one before
  left.
\<close>

fun run :: "'w helper \<Rightarrow> app \<times> 'w \<Rightarrow> string list \<Rightarrow> response option list \<times> app \<times> 'w" where
  "run sfd s [] = ([], s)"
| "run sfd s (url # urls) =
     (case dispatch_request sfd s url of
        (r, s') \<Rightarrow> (case run sfd s' urls of (rs, s'') \<Rightarrow> (r # rs, s'')))"

text \<open>
  A helper reads only when every call returns the world it was given.
\<close>

definition reads_only :: "'w helper \<Rightarrow> bool" where
  "reads_only sfd \<longleftrightarrow> (\<forall>root directory path w. snd (sfd root directory path w) = w)"

section \<open>The framework's helper, as the specification describes it\<close>

text \<open>
  Modelled from the spec: the filesystem the helper reads, which the source never names.
  A path names a directory, or a regular file with its contents and whether the process
  can read it. Resolving a directory and a path under a root either leaves the root's
  subtree, finds nothing, or finds a node. The filesystem is this resolution, as a
  function of the root, the directory and the path.
\<close>

datatype node = Directory | Regular_file bytes bool

datatype resolution = Outside_root | Not_exist | Exists node

type_synonym filesystem = "string \<Rightarrow> string \<Rightarrow> string \<Rightarrow> resolution"


text \<open>
  Modelled from the spec: an error response. Its body is the platform's default page,
  which the specification leaves open; the model leaves it empty and no theorem speaks
  of it.
\<close>

definition error_response :: "nat \<Rightarrow> response" where
  "error_response code = \<lparr>status = code, body = []\<rparr>"

text \<open>
  Modelled from the spec: \<^verbatim>\<open>send_from_directory\<close> is the framework's function and its
  code is not among the sources. Section 4.1 of the specification, in its order: a path
  that resolves outside the Root Directory is rejected (Forbidden, 403, in section 7);
  a regular file that can be read is returned whole with 200; a path that does not
  exist or is a directory gets 404; a file that exists and cannot be read gets 500.
  Nothing is written.
\<close>

definition send_from_directory :: "filesystem helper" where
  "send_from_directory root directory path fs =
     (case fs root directory path of
        Outside_root \<Rightarrow> (error_response 403, fs)
      | Not_exist \<Rightarrow> (error_response 404, fs)
      | Exists Directory \<Rightarrow> (error_response 404, fs)
      | Exists (Regular_file contents readable) \<Rightarrow>
          (if readable then (\<lparr>status = 200, body = contents\<rparr>, fs)
           else (error_response 500, fs)))"

section \<open>Concrete inputs\<close>

definition example_environ :: environ where
  "example_environ = Map.empty"

definition example_app :: app where
  "example_app = create_app ''/srv/app'' example_environ"

definition example_fs :: filesystem where
  "example_fs root directory path =
     (if root = ''/srv/app'' \<and> directory = ''.'' then
        (if path = ''index.html'' then Exists (Regular_file ''<h1>Tax</h1>'' True)
         else if path = ''docs/rates.txt'' then Exists (Regular_file ''10 20 30'' True)
         else if path = ''private.key'' then Exists (Regular_file ''k3y'' False)
         else if path = ''static'' then Exists Directory
         else Not_exist)
      else Not_exist)"

definition empty_fs :: filesystem where
  "empty_fs root directory path = Not_exist"

definition locked_fs :: filesystem where
  "locked_fs root directory path =
     (if root = ''/srv/app'' \<and> directory = ''.'' \<and> path = ''index.html''
      then Exists (Regular_file ''<h1>Tax</h1>'' False)
      else Not_exist)"

section \<open>Routing\<close>

lemma url_map_create_app:
  "url_map (create_app root env) =
     [(Rule_static, Static), (Rule_root, Index), (Rule_path, Serve_file)]"
  by (simp add: create_app_def add_url_rule_def)

lemma root_path_create_app: "root_path (create_app root env) = root"
  by (simp add: create_app_def add_url_rule_def)

lemma match_url_root:
  "match_url [(Rule_static, Static), (Rule_root, Index), (Rule_path, Serve_file)] ''/'' =
     Some (Index, [])"
  by simp

lemma match_url_path:
  assumes "path_converter p" and "take 7 p \<noteq> ''static/''"
  shows "match_url [(Rule_static, Static), (Rule_root, Index), (Rule_path, Serve_file)]
           (CHR ''/'' # p) = Some (Serve_file, [p])"
proof -
  have "p \<noteq> []"
    using assms(1) by (simp add: path_converter_def)
  then have "CHR ''/'' # p \<noteq> ''/''"
    by simp
  moreover have "take 8 (CHR ''/'' # p) \<noteq> ''/static/''"
    using assms(2) by simp
  ultimately show ?thesis
    using assms(1) by simp
qed

lemma dispatch_root:
  "dispatch_request sfd (create_app root env, w) ''/'' =
     (Some (fst (sfd root ''.'' ''index.html'' w)), create_app root env,
      snd (sfd root ''.'' ''index.html'' w))"
  by (simp add: dispatch_request_def url_map_create_app root_path_create_app index_def
      split: prod.splits)

lemma dispatch_path:
  assumes "path_converter p" and "p \<noteq> ''console''" and "take 7 p \<noteq> ''static/''"
  shows "dispatch_request sfd (create_app root env, w) (CHR ''/'' # p) =
     (Some (fst (sfd root ''.'' p w)), create_app root env, snd (sfd root ''.'' p w))"
proof -
  have "CHR ''/'' # p \<noteq> ''/console''"
    using assms(2) by simp
  then show ?thesis
    using match_url_path [OF assms(1) assms(3)]
    by (simp add: dispatch_request_def url_map_create_app root_path_create_app serve_file_def
        del: match_url.simps split: prod.splits)
qed

lemma path_converter_simple:
  "path_converter ''index.html''" "path_converter ''private.key''"
  "path_converter ''nothing.txt''" "path_converter ''docs/rates.txt''"
  by (simp_all add: path_converter_def)

section \<open>The root route and the wildcard route agree on index.html\<close>

text \<open>
  C5. The response to \<^verbatim>\<open>GET /\<close> is the response to \<^verbatim>\<open>GET /index.html\<close>: both views ask
  the framework for \<^verbatim>\<open>index.html\<close> in directory \<^verbatim>\<open>.\<close>, so the two requests get the
  same response, and with it the same payload, whatever the framework's function
  returns; in particular when \<^verbatim>\<open>index.html\<close> exists.
\<close>

theorem index_agrees_with_serve_file:
  "fst (dispatch_request sfd (create_app root env, w) ''/'') =
     fst (dispatch_request sfd (create_app root env, w) ''/index.html'')
   \<and> map_option body (fst (dispatch_request sfd (create_app root env, w) ''/'')) =
     map_option body (fst (dispatch_request sfd (create_app root env, w) ''/index.html''))
   \<and> fst (dispatch_request sfd (create_app root env, w) ''/'') =
     Some (fst (sfd root ''.'' ''index.html'' w))"
proof -
  have "dispatch_request sfd (create_app root env, w) ''/index.html'' =
     (Some (fst (sfd root ''.'' ''index.html'' w)), create_app root env,
      snd (sfd root ''.'' ''index.html'' w))"
    using dispatch_path [of "''index.html''" sfd root env w]
    by (simp add: path_converter_simple)
  then show ?thesis
    by (simp add: dispatch_root)
qed

section \<open>The secret key\<close>

lemma dispatch_request_secret:
  "dispatch_request sfd (a\<lparr>secret_key := k\<rparr>, w) url =
     (case dispatch_request sfd (a, w) url of (r, a', w') \<Rightarrow> (r, a'\<lparr>secret_key := k\<rparr>, w'))"
  by (auto simp: dispatch_request_def index_def serve_file_def send_static_file_def
      split: option.splits prod.splits endpoint.splits list.splits)

lemma run_secret:
  "run sfd (a\<lparr>secret_key := k\<rparr>, w) urls =
     (case run sfd (a, w) urls of (rs, a', w') \<Rightarrow> (rs, a'\<lparr>secret_key := k\<rparr>, w'))"
proof (induction urls arbitrary: a w)
  case Nil
  show ?case by simp
next
  case (Cons url urls)
  show ?case
    by (simp add: dispatch_request_secret Cons.IH split: prod.splits)
qed

lemma create_app_secret:
  "create_app root env = (create_app root env')\<lparr>secret_key := environ_get env ''SESSION_SECRET'' ''income-tax-calculator-secret-key''\<rparr>"
  by (simp add: create_app_def add_url_rule_def)

text \<open>
  C10. The secret is what \<^verbatim>\<open>os.environ.get\<close> gives at start-up: the value of
  \<^verbatim>\<open>SESSION_SECRET\<close>, or the fixed default when the variable is absent. No response
  depends on it: two servers started in environments that differ only in that variable
  (\<open>v\<close> is any value of it, or its absence) give every sequence of requests the same
  responses and leave the same world. The response is a function of the root path, the
  world and the requests.
\<close>

theorem secret_key_not_observable:
  "secret_key (create_app root env) =
     (case env ''SESSION_SECRET'' of
        None \<Rightarrow> ''income-tax-calculator-secret-key''
      | Some v \<Rightarrow> v)
   \<and> fst (run sfd (create_app root env, w) urls) =
       fst (run sfd (create_app root (env(''SESSION_SECRET'' := v)), w) urls)
   \<and> snd (snd (run sfd (create_app root env, w) urls)) =
       snd (snd (run sfd (create_app root (env(''SESSION_SECRET'' := v)), w) urls))"
proof -
  have "secret_key (create_app root env) = environ_get env ''SESSION_SECRET'' ''income-tax-calculator-secret-key''"
    by (simp add: create_app_def add_url_rule_def)
  moreover have "run sfd (create_app root env, w) urls =
    (case run sfd (create_app root (env(''SESSION_SECRET'' := v)), w) urls of
       (rs, a', w') \<Rightarrow> (rs, a'\<lparr>secret_key := environ_get env ''SESSION_SECRET'' ''income-tax-calculator-secret-key''\<rparr>, w'))"
    using run_secret [where sfd = sfd and a = "create_app root (env(''SESSION_SECRET'' := v))"
          and w = w and urls = urls]
      create_app_secret [of root env "env(''SESSION_SECRET'' := v)"]
    by simp
  ultimately show ?thesis
    by (simp add: environ_get_def split: prod.splits)
qed

section \<open>Requests leave the process state alone\<close>

lemma dispatch_request_app: "fst (snd (dispatch_request sfd (a, w) url)) = a"
  by (auto simp: dispatch_request_def index_def serve_file_def send_static_file_def
      split: option.splits prod.splits endpoint.splits list.splits)

lemma dispatch_request_reads_only:
  "reads_only sfd \<Longrightarrow> snd (dispatch_request sfd (a, w) url) = (a, w)"
  by (auto simp: dispatch_request_def index_def serve_file_def send_static_file_def
      reads_only_def
      split: option.splits prod.splits endpoint.splits list.splits
      dest: arg_cong[where f = snd])

lemma run_app: "fst (snd (run sfd (a, w) urls)) = a"
proof (induction urls arbitrary: w)
  case Nil
  show ?case by simp
next
  case (Cons url urls)
  obtain r a' w' where d: "dispatch_request sfd (a, w) url = (r, a', w')"
    by (cases "dispatch_request sfd (a, w) url") auto
  with dispatch_request_app [of sfd a w url] have "a' = a" by simp
  with d Cons.IH [of w'] show ?case
    by (auto split: prod.splits)
qed

lemma run_reads_only:
  assumes "reads_only sfd"
  shows "run sfd (a, w) urls = (map (\<lambda>u. fst (dispatch_request sfd (a, w) u)) urls, a, w)"
proof (induction urls)
  case Nil
  show ?case by simp
next
  case (Cons url urls)
  obtain r where d: "dispatch_request sfd (a, w) url = (r, a, w)"
    using dispatch_request_reads_only [OF assms, of a w url]
    by (cases "dispatch_request sfd (a, w) url") auto
  with Cons.IH show ?case by simp
qed

lemma reads_only_send_from_directory: "reads_only send_from_directory"
  by (simp add: reads_only_def send_from_directory_def split: resolution.splits node.splits)

text \<open>
  C9. After any sequence of requests the application object (root path, secret key and
  route table) is the one the server started with: no view assigns to it. The views
  touch the world only through the framework's helper; when that helper reads only, the
  world too is unchanged after the sequence, and every request gets the response it
  would get alone on the initial state, whatever was asked, and whatever failed, before it.
\<close>

theorem requests_leave_state:
  "fst (snd (run sfd (a, w) urls)) = a
   \<and> (reads_only sfd \<longrightarrow>
        run sfd (a, w) urls = (map (\<lambda>u. fst (dispatch_request sfd (a, w) u)) urls, a, w))"
  using run_app [of sfd a w urls] run_reads_only [of sfd a w urls] by blast

theorem requests_leave_state_witness:
  "reads_only send_from_directory
   \<and> map (map_option status)
         (fst (run send_from_directory (example_app, example_fs)
            [''/'', ''/private.key'', ''/nothing.txt'', ''/index.html''])) =
       [Some 200, Some 500, Some 404, Some 200]
   \<and> snd (run send_from_directory (example_app, example_fs)
         [''/'', ''/private.key'', ''/nothing.txt'', ''/index.html'']) =
       (example_app, example_fs)"
proof -
  have "run send_from_directory (example_app, example_fs)
          [''/'', ''/private.key'', ''/nothing.txt'', ''/index.html''] =
        (map (\<lambda>u. fst (dispatch_request send_from_directory (example_app, example_fs) u))
           [''/'', ''/private.key'', ''/nothing.txt'', ''/index.html''],
         example_app, example_fs)"
    using requests_leave_state [of send_from_directory example_app example_fs
        "[''/'', ''/private.key'', ''/nothing.txt'', ''/index.html'']"]
      reads_only_send_from_directory
    by blast
  then show ?thesis
    using reads_only_send_from_directory
    by (simp add: example_app_def dispatch_root dispatch_path path_converter_simple
        send_from_directory_def example_fs_def error_response_def)
qed

section \<open>The root route\<close>

text \<open>
  C3, as the claim states it, does not hold: when \<^verbatim>\<open>index.html\<close> exists directly under
  the root as a regular file that cannot be read, \<^verbatim>\<open>GET /\<close> neither serves the file nor
  answers 404; the response is 500.
\<close>

theorem unreadable_index_counterexample:
  "locked_fs ''/srv/app'' ''.'' ''index.html'' = Exists (Regular_file ''<h1>Tax</h1>'' False)
   \<and> fst (dispatch_request send_from_directory (example_app, locked_fs) ''/'') \<noteq>
        Some \<lparr>status = 200, body = ''<h1>Tax</h1>''\<rparr>
   \<and> map_option status (fst (dispatch_request send_from_directory (example_app, locked_fs) ''/'')) =
        Some 500"
  by (simp add: example_app_def dispatch_root send_from_directory_def locked_fs_def
      error_response_def)

text \<open>
  C3, amended. \<^verbatim>\<open>GET /\<close> is answered from the file named \<^verbatim>\<open>index.html\<close> directly under
  the application's root: when that is a regular file that can be read the response is
  200 with the file's bytes, and when it does not exist the response is 404. The view
  fixes the name and the directory; the two outcomes are the helper's, as the
  specification describes it.
\<close>

theorem index_serves_index_html:
  "(fs root ''.'' ''index.html'' = Exists (Regular_file contents True) \<longrightarrow>
      fst (dispatch_request send_from_directory (create_app root env, fs) ''/'') =
        Some \<lparr>status = 200, body = contents\<rparr>)
   \<and> (fs root ''.'' ''index.html'' = Not_exist \<longrightarrow>
      map_option status (fst (dispatch_request send_from_directory (create_app root env, fs) ''/'')) =
        Some 404)"
  by (simp add: dispatch_root send_from_directory_def error_response_def)

theorem index_serves_index_html_witness:
  "example_fs ''/srv/app'' ''.'' ''index.html'' = Exists (Regular_file ''<h1>Tax</h1>'' True)
   \<and> fst (dispatch_request send_from_directory (example_app, example_fs) ''/'') =
        Some \<lparr>status = 200, body = ''<h1>Tax</h1>''\<rparr>
   \<and> empty_fs ''/srv/app'' ''.'' ''index.html'' = Not_exist
   \<and> map_option status (fst (dispatch_request send_from_directory (example_app, empty_fs) ''/'')) =
        Some 404"
proof -
  have present: "example_fs ''/srv/app'' ''.'' ''index.html'' = Exists (Regular_file ''<h1>Tax</h1>'' True)"
    by (simp add: example_fs_def)
  have absent: "empty_fs ''/srv/app'' ''.'' ''index.html'' = Not_exist"
    by (simp add: empty_fs_def)
  show ?thesis
    using present absent
      index_serves_index_html [of example_fs "''/srv/app''" "''<h1>Tax</h1>''" example_environ]
      index_serves_index_html [of empty_fs "''/srv/app''" "''<h1>Tax</h1>''" example_environ]
    by (simp add: example_app_def)
qed

section \<open>The wildcard route on files that exist\<close>




end
